theory Spec2Isabelle
  imports Main "HOL-Library.Word"
begin

section \<open>The Sliceable pseudo-container of the MLIR Python bindings\<close>

text \<open>
  The embedding follows \<^verbatim>\<open>mlir/lib/Bindings/Python/PybindUtils.h\<close>, class template
  \<^verbatim>\<open>Sliceable<Derived, ElementTy>\<close>.

  \<^item> \<^verbatim>\<open>intptr_t\<close> is a 64-bit two's complement integer: arithmetic wraps, comparisons
    are the signed ones (\<open><s\<close>, \<open>\<le>s\<close>).
  \<^item> A thrown \<^verbatim>\<open>pybind11::index_error\<close>, a Python error set with
    \<^verbatim>\<open>PyErr_SetString(PyExc_IndexError, ...)\<close> together with the null object returned,
    and a failed \<^verbatim>\<open>assert\<close> are values of the type \<open>error\<close>; a function that can
    fail returns \<open>error + 'a\<close>.
  \<^item> \<^verbatim>\<open>assert\<close> is a macro that expands to nothing when \<^verbatim>\<open>NDEBUG\<close> is defined.
    Every function that contains an assertion takes the flag \<open>ndebug\<close> as its first
    argument.
  \<^item> The members that the derived class has to supply, \<^verbatim>\<open>getRawNumElements()\<close> and
    \<^verbatim>\<open>getRawElement(intptr_t)\<close>, are fields of the record of the derived object. They
    ``must not throw'', so \<open>getRawElement\<close> is a total function.
  \<^item> \<^verbatim>\<open>std::vector<ElementTy>\<close> is a list. \<^verbatim>\<open>reserve(n)\<close> throws
    \<^verbatim>\<open>std::length_error\<close> when \<open>n\<close>, read as a \<^verbatim>\<open>size_t\<close>, exceeds \<^verbatim>\<open>max_size()\<close>;
    \<^verbatim>\<open>push_back\<close> throws it when the vector has \<^verbatim>\<open>max_size()\<close> elements. The value
    of \<^verbatim>\<open>max_size()\<close> depends on the implementation of the standard library and is a
    parameter. Storage exhaustion (\<^verbatim>\<open>std::bad_alloc\<close>) is not modelled.
\<close>

type_synonym intptr_t = "64 word"

datatype error =
    IndexError string
  | AssertionFailed string
  | LengthError

text \<open>\<^verbatim>\<open>assert(cond && "msg")\<close>\<close>

definition c_assert :: "bool \<Rightarrow> bool \<Rightarrow> string \<Rightarrow> error + unit" where
  "c_assert ndebug cond msg =
     (if ndebug \<or> cond then Inr () else Inl (AssertionFailed msg))"

text \<open>The private data members of \<^verbatim>\<open>Sliceable\<close>.\<close>

record sliceable =
  startIndex :: intptr_t
  length' :: intptr_t
  step :: intptr_t

text \<open>
  An object of the derived class: the slice parameters and the backing container it
  refers to, given by the two callbacks.
\<close>

record 'e derived = sliceable +
  getRawNumElements :: intptr_t
  getRawElement :: "intptr_t \<Rightarrow> 'e"

subsection \<open>Constructor\<close>


subsection \<open>Index arithmetic\<close>

text \<open>
  \<^verbatim>\<open>wrapIndex\<close>: transforms \<open>index\<close> into a legal value to access the underlying
  sequence, returns \<open>-1\<close> on failure.
\<close>

definition wrapIndex :: "'e derived \<Rightarrow> intptr_t \<Rightarrow> intptr_t" where
  "wrapIndex self index =
     (let index = (if index <s 0 then length' self + index else index)
      in if index <s 0 \<or> length' self \<le>s index then - 1 else index)"

text \<open>\<^verbatim>\<open>linearizeIndex\<close>: the linear index given the current slice properties.\<close>

definition linearizeIndex :: "bool \<Rightarrow> 'e derived \<Rightarrow> intptr_t \<Rightarrow> error + intptr_t" where
  "linearizeIndex ndebug self index =
     (let linearIndex = index * step self + startIndex self
      in case c_assert ndebug
                (0 \<le>s linearIndex \<and> linearIndex <s getRawNumElements self)
                ''linear index out of bounds, the slice is ill-formed'' of
           Inl e \<Rightarrow> Inl e
         | Inr _ \<Rightarrow> Inr linearIndex)"

subsection \<open>Element access\<close>

text \<open>
  \<^verbatim>\<open>getItem\<close>: on a bad index the Python error indicator is set to \<^verbatim>\<open>IndexError\<close> and
  the null object is returned; otherwise the element is returned, converted to a
  Python object (the conversion \<^verbatim>\<open>pybind11::cast\<close> is left implicit).
\<close>

definition getItem :: "bool \<Rightarrow> 'e derived \<Rightarrow> intptr_t \<Rightarrow> error + 'e" where
  "getItem ndebug self index =
     (let index = wrapIndex self index
      in if index <s 0 then Inl (IndexError ''index out of range'')
         else case linearizeIndex ndebug self index of
                Inl e \<Rightarrow> Inl e
              | Inr linearIndex \<Rightarrow> Inr (getRawElement self linearIndex))"

text \<open>\<^verbatim>\<open>getElement\<close>: throws \<^verbatim>\<open>pybind11::index_error\<close> if the index is out of bounds.\<close>

definition getElement :: "bool \<Rightarrow> 'e derived \<Rightarrow> intptr_t \<Rightarrow> error + 'e" where
  "getElement ndebug self index =
     (let index = wrapIndex self index
      in if index <s 0 then Inl (IndexError ''index out of range'')
         else case linearizeIndex ndebug self index of
                Inl e \<Rightarrow> Inl e
              | Inr linearIndex \<Rightarrow> Inr (getRawElement self linearIndex))"

text \<open>\<^verbatim>\<open>size()\<close>\<close>

definition size' :: "'e derived \<Rightarrow> intptr_t" where
  "size' self = length' self"

text \<open>
  The slots \<^verbatim>\<open>sq_length\<close> and \<^verbatim>\<open>sq_item\<close> of the sequence protocol, as installed by
  \<^verbatim>\<open>bind\<close>.
\<close>

definition sq_length :: "'e derived \<Rightarrow> intptr_t" where
  "sq_length self = length' self"

definition sq_item :: "bool \<Rightarrow> 'e derived \<Rightarrow> intptr_t \<Rightarrow> error + 'e" where
  "sq_item ndebug self index = getItem ndebug self index"

subsection \<open>Slicing\<close>




subsection \<open>Concatenation\<close>

text \<open>
  \<^verbatim>\<open>std::vector::reserve\<close>: the argument is an \<^verbatim>\<open>intptr_t\<close> converted to \<^verbatim>\<open>size_t\<close>,
  so a negative one is a number of at least \<open>2 ^ 63\<close>. The contents of the vector do
  not change.
\<close>

definition reserve :: "nat \<Rightarrow> 'e list \<Rightarrow> intptr_t \<Rightarrow> error + 'e list" where
  "reserve max_size elements n =
     (if max_size < unat n then Inl LengthError else Inr elements)"

text \<open>
  \<^verbatim>\<open>std::vector::push_back\<close>: a vector that has \<^verbatim>\<open>max_size()\<close> elements cannot
  grow, and \<^verbatim>\<open>std::length_error\<close> is thrown.
\<close>

definition push_back :: "nat \<Rightarrow> 'e list \<Rightarrow> 'e \<Rightarrow> error + 'e list" where
  "push_back max_size elements x =
     (if max_size \<le> length elements then Inl LengthError else Inr (elements @ [x]))"

text \<open>
  One loop of \<^verbatim>\<open>dunderAdd\<close>:
  \<^verbatim>\<open>for (intptr_t i = 0; i < length; ++i) elements.push_back(getElement(i));\<close>
  started at the counter \<open>i\<close> with the vector \<open>elements\<close>. An exception of
  \<^verbatim>\<open>getElement\<close> or of \<^verbatim>\<open>push_back\<close> leaves the loop.
\<close>

function dunderAdd_loop ::
  "bool \<Rightarrow> nat \<Rightarrow> 'e derived \<Rightarrow> intptr_t \<Rightarrow> 'e list \<Rightarrow> error + 'e list" where
  "dunderAdd_loop ndebug max_size self i elements =
     (if i <s length' self
      then (case getElement ndebug self i of
              Inl e \<Rightarrow> Inl e
            | Inr x \<Rightarrow>
                (case push_back max_size elements x of
                   Inl e \<Rightarrow> Inl e
                 | Inr elements' \<Rightarrow> dunderAdd_loop ndebug max_size self (i + 1) elements'))
      else Inr elements)"
  by pat_completeness auto

termination dunderAdd_loop
proof (relation "measure (\<lambda>(ndebug :: bool, max_size :: nat, self :: 'a derived, i :: intptr_t,
                   elements :: 'a list). nat (sint (length' self) - sint i))")
  show "wf (measure (\<lambda>(ndebug :: bool, max_size :: nat, self :: 'a derived, i :: intptr_t,
              elements :: 'a list). nat (sint (length' self) - sint i)))"
    by simp
next
  fix ndebug :: bool and max_size :: nat and self :: "'a derived" and i :: intptr_t
    and elements elements' :: "'a list"
  assume "i <s length' self"
  then have less: "sint i < sint (length' self)"
    by (simp add: word_sless_alt)
  moreover have "sint (length' self) < 2 ^ 63"
    using sint_lt [of "length' self"] by simp
  moreover have "- (2 ^ 63) \<le> sint i"
    using sint_ge [of i] by simp
  ultimately have "signed_take_bit 63 (sint i + 1) = sint i + 1"
    by (intro signed_take_bit_int_eq_self) simp_all
  then have "sint (i + 1) = sint i + 1"
    by (simp add: sint_word_ariths)
  with less show "((ndebug, max_size, self, i + 1, elements'), (ndebug, max_size, self, i, elements))
      \<in> measure (\<lambda>(ndebug, max_size, self, i, elements). nat (sint (length' self) - sint i))"
    by simp
qed

declare dunderAdd_loop.simps [simp del]

text \<open>
  \<^verbatim>\<open>dunderAdd\<close>: a new vector with the elements of the two slices, after
  \<^verbatim>\<open>elements.reserve(length + other.length)\<close>.
\<close>

definition dunderAdd :: "bool \<Rightarrow> nat \<Rightarrow> 'e derived \<Rightarrow> 'e derived \<Rightarrow> error + 'e list" where
  "dunderAdd ndebug max_size self other =
     (case reserve max_size [] (length' self + length' other) of
        Inl e \<Rightarrow> Inl e
      | Inr elements \<Rightarrow>
          (case dunderAdd_loop ndebug max_size self 0 elements of
             Inl e \<Rightarrow> Inl e
           | Inr elements \<Rightarrow> dunderAdd_loop ndebug max_size other 0 elements))"

section \<open>Index wrapping and element access\<close>

text \<open>
  With a non-negative length and a negative index, \<^verbatim>\<open>length + index\<close> does not
  overflow.
\<close>

lemma sint_add_neg_nonneg:
  fixes L i :: intptr_t
  assumes "0 \<le>s L" "i <s 0"
  shows "sint (L + i) = sint L + sint i"
proof -
  have a: "0 \<le> sint L" "sint i < 0"
    using assms by (simp_all add: word_sle_eq word_sless_alt)
  have b: "sint L < 2 ^ 63" "- (2 ^ 63) \<le> sint i"
    using sint_lt [of L] sint_ge [of i] by simp_all
  have "sint (L + i) = signed_take_bit 63 (sint L + sint i)"
    by (simp add: sint_word_ariths)
  also have "\<dots> = sint L + sint i"
    using a b by (intro signed_take_bit_int_eq_self) simp_all
  finally show ?thesis .
qed

lemma wrapIndex_outside:
  fixes self :: "'e derived"
  assumes "0 \<le>s length' self"
    and "sint i < - sint (length' self) \<or> sint (length' self) \<le> sint i"
  shows "wrapIndex self i = - 1"
proof (cases "i <s 0")
  case True
  with assms sint_add_neg_nonneg [OF assms(1) True] show ?thesis
    by (auto simp add: wrapIndex_def Let_def word_sle_eq word_sless_alt)
next
  case False
  with assms show ?thesis
    by (auto simp add: wrapIndex_def Let_def word_sle_eq word_sless_alt)
qed

lemma wrapIndex_inside:
  fixes self :: "'e derived"
  assumes "0 \<le>s length' self"
    and "\<not> (sint i < - sint (length' self) \<or> sint (length' self) \<le> sint i)"
  shows "wrapIndex self i = (if sint i < 0 then i + length' self else i)"
    and "\<not> wrapIndex self i <s 0"
proof -
  show eq: "wrapIndex self i = (if sint i < 0 then i + length' self else i)"
  proof (cases "i <s 0")
    case True
    with assms sint_add_neg_nonneg [OF assms(1) True] show ?thesis
      by (auto simp add: wrapIndex_def Let_def word_sle_eq word_sless_alt add.commute)
  next
    case False
    with assms show ?thesis
      by (auto simp add: wrapIndex_def Let_def word_sle_eq word_sless_alt)
  qed
  show "\<not> wrapIndex self i <s 0"
  proof (cases "i <s 0")
    case True
    with assms sint_add_neg_nonneg [OF assms(1) True] show ?thesis
      unfolding eq by (auto simp add: word_sle_eq word_sless_alt add.commute)
  next
    case False
    then show ?thesis
      unfolding eq by (auto simp add: word_sless_alt)
  qed
qed

lemma getItem_eq_getElement: "getItem ndebug self i = getElement ndebug self i"
  by (simp add: getItem_def getElement_def)

text \<open>
  Claim C2, as amended. Let the length \<open>L\<close> of the slice be non-negative. Then
  \<^verbatim>\<open>getElement(i)\<close>, and \<^verbatim>\<open>getItem(i)\<close> and the slot \<^verbatim>\<open>sq_item\<close> with it, reports
  ``index out of range'' if and only if \<open>i < -L\<close> or \<open>i \<ge> L\<close>. Otherwise let \<open>i' = i + L\<close> for a negative \<open>i\<close> and
  \<open>i' = i\<close> for the others. If assertions are compiled out, or the linear index
  \<open>i' * step + startIndex\<close> lies in \<open>[0, getRawNumElements())\<close>, the result is
  \<^verbatim>\<open>getRawElement(i' * step + startIndex)\<close>; if not, the assertion of
  \<^verbatim>\<open>linearizeIndex\<close> fails.
\<close>

theorem getElement_index:
  fixes self :: "'e derived"
  assumes "0 \<le>s length' self"
  shows "(getElement ndebug self i = Inl (IndexError ''index out of range'')
            \<longleftrightarrow> sint i < - sint (length' self) \<or> sint (length' self) \<le> sint i)
       \<and> getItem ndebug self i = getElement ndebug self i
       \<and> sq_item ndebug self i = getElement ndebug self i
       \<and> (\<not> (sint i < - sint (length' self) \<or> sint (length' self) \<le> sint i) \<longrightarrow>
            (let i' = (if sint i < 0 then i + length' self else i);
                 linearIndex = i' * step self + startIndex self
             in getElement ndebug self i =
                  (if ndebug \<or> (0 \<le>s linearIndex \<and> linearIndex <s getRawNumElements self)
                   then Inr (getRawElement self linearIndex)
                   else Inl (AssertionFailed
                          ''linear index out of bounds, the slice is ill-formed''))))"
proof (cases "sint i < - sint (length' self) \<or> sint (length' self) \<le> sint i")
  case True
  from wrapIndex_outside [OF assms True]
  have "getElement ndebug self i = Inl (IndexError ''index out of range'')"
    by (simp add: getElement_def)
  with True show ?thesis
    by (simp add: getItem_eq_getElement sq_item_def)
next
  case False
  note w = wrapIndex_inside [OF assms False]
  have "getElement ndebug self i =
      (case linearizeIndex ndebug self (wrapIndex self i) of
         Inl e \<Rightarrow> Inl e | Inr linearIndex \<Rightarrow> Inr (getRawElement self linearIndex))"
    using w(2) by (simp add: getElement_def Let_def)
  then have "getElement ndebug self i =
      (let linearIndex = (if sint i < 0 then i + length' self else i) * step self + startIndex self
       in if ndebug \<or> (0 \<le>s linearIndex \<and> linearIndex <s getRawNumElements self)
          then Inr (getRawElement self linearIndex)
          else Inl (AssertionFailed ''linear index out of bounds, the slice is ill-formed''))"
    unfolding w(1) by (simp add: linearizeIndex_def c_assert_def Let_def)
  with False show ?thesis
    by (simp add: getItem_eq_getElement sq_item_def Let_def)
qed

text \<open>
  The theorem at a slice with start 1, length 3 and step 2 over six elements, where the
  raw element at position \<open>k\<close> is \<open>k\<close>: the index \<open>-1\<close> is the last element, at the
  linear position 5, and the index 3 is out of range.
\<close>

theorem getElement_index_witness:
  "getElement False
     \<lparr>startIndex = 1, length' = 3, step = 2, getRawNumElements = 6, getRawElement = unat\<rparr>
     (- 1) = Inr 5
   \<and> getElement False
     \<lparr>startIndex = 1, length' = 3, step = 2, getRawNumElements = 6, getRawElement = unat\<rparr>
     3 = Inl (IndexError ''index out of range'')"
proof -
  let ?d = "\<lparr>startIndex = 1, length' = 3, step = 2, getRawNumElements = 6,
             getRawElement = unat\<rparr> :: nat derived"
  have h: "0 \<le>s length' ?d" by (simp add: word_sle_eq)
  from getElement_index [OF h, of False "- 1"] getElement_index [OF h, of False 3]
  show ?thesis by (simp add: word_sle_eq word_sless_alt)
qed

text \<open>
  Claim C2 as stated, without the condition on the linear index, fails with assertions
  enabled: a slice of length 2 and step 1 from position 0 over a container of one
  element. The index 1 is within the slice, but \<^verbatim>\<open>getElement(1)\<close> does not return
  \<^verbatim>\<open>getRawElement(1)\<close>: the assertion of \<^verbatim>\<open>linearizeIndex\<close> fails.
\<close>

theorem getElement_ill_formed_counterexample:
  "0 \<le>s length' \<lparr>startIndex = 0, length' = 2, step = 1, getRawNumElements = 1, getRawElement = unat\<rparr>
   \<and> \<not> (sint (1 :: intptr_t) < - sint (2 :: intptr_t) \<or> sint (2 :: intptr_t) \<le> sint (1 :: intptr_t))
   \<and> getElement False
       \<lparr>startIndex = 0, length' = 2, step = 1, getRawNumElements = 1, getRawElement = unat\<rparr> 1
     \<noteq> Inr (unat (1 * 1 + 0 :: intptr_t))
   \<and> getElement False
       \<lparr>startIndex = 0, length' = 2, step = 1, getRawNumElements = 1, getRawElement = unat\<rparr> 1
     = Inl (AssertionFailed ''linear index out of bounds, the slice is ill-formed'')"
  by (simp add: getElement_def wrapIndex_def linearizeIndex_def c_assert_def word_sle_eq word_sless_alt)

section \<open>Slicing composes\<close>

text \<open>An index within \<open>[0, length)\<close> is left as it is by \<^verbatim>\<open>wrapIndex\<close>.\<close>

lemma wrapIndex_id:
  fixes self :: "'e derived"
  assumes "0 \<le>s i" and "i <s length' self"
  shows "wrapIndex self i = i"
  using assms by (auto simp add: wrapIndex_def Let_def word_sle_eq word_sless_alt)

lemma getElement_inside:
  fixes self :: "'e derived"
  assumes "0 \<le>s i" and "i <s length' self"
  shows "getElement ndebug self i =
     (case linearizeIndex ndebug self i of
        Inl e \<Rightarrow> Inl e | Inr linearIndex \<Rightarrow> Inr (getRawElement self linearIndex))"
  using assms wrapIndex_id [OF assms]
  by (simp add: getElement_def Let_def word_sle_eq word_sless_alt)




section \<open>Concatenation of two slices\<close>

text \<open>The loop counter does not overflow: it stays below the length.\<close>

lemma sint_succ_below:
  fixes i n :: intptr_t
  assumes "i <s n"
  shows "sint (i + 1) = sint i + 1"
proof -
  from assms have "sint i < sint n" by (simp add: word_sless_alt)
  moreover have "sint n < 2 ^ 63" using sint_lt [of n] by simp
  moreover have "- (2 ^ 63) \<le> sint i" using sint_ge [of i] by simp
  ultimately have "signed_take_bit 63 (sint i + 1) = sint i + 1"
    by (intro signed_take_bit_int_eq_self) simp_all
  then show ?thesis by (simp add: sint_word_ariths)
qed

lemma getElement_in_bounds:
  fixes self :: "'e derived"
  assumes "0 \<le>s i" and "i <s length' self"
    and "ndebug \<or> (0 \<le>s i * step self + startIndex self
                 \<and> i * step self + startIndex self <s getRawNumElements self)"
  shows "getElement ndebug self i = Inr (getRawElement self (i * step self + startIndex self))"
  using assms(3) unfolding getElement_inside [OF assms(1,2)]
  by (auto simp add: linearizeIndex_def c_assert_def Let_def)

text \<open>
  The loop invariant: started at a non-negative counter \<open>i\<close> with room in the vector
  for the elements to come, the loop appends the elements at the indices
  \<open>i, \<dots>, length - 1\<close> in this order.
\<close>

lemma dunderAdd_loop_collect:
  fixes self :: "'e derived"
  assumes "0 \<le>s i"
    and "ndebug \<or> (\<forall>k. 0 \<le>s k \<and> k <s length' self \<longrightarrow>
           0 \<le>s k * step self + startIndex self
           \<and> k * step self + startIndex self <s getRawNumElements self)"
    and "length elements + (nat (sint (length' self)) - nat (sint i)) \<le> max_size"
  shows "dunderAdd_loop ndebug max_size self i elements =
     Inr (elements @ map (\<lambda>k. getRawElement self (of_nat k * step self + startIndex self))
                       [nat (sint i) ..< nat (sint (length' self))])"
  using assms
proof (induction ndebug max_size self i elements rule: dunderAdd_loop.induct)
  case (1 ndebug max_size self i elements)
  show ?case
  proof (cases "i <s length' self")
    case False
    then have "nat (sint (length' self)) \<le> nat (sint i)"
      by (simp add: word_sless_alt)
    with False show ?thesis
      by (simp add: dunderAdd_loop.simps [of ndebug max_size self i elements])
  next
    case True
    let ?x = "getRawElement self (i * step self + startIndex self)"
    have nonneg: "0 \<le> sint i"
      using "1.prems"(1) by (simp add: word_sle_eq)
    have succ: "sint (i + 1) = sint i + 1"
      by (rule sint_succ_below [OF True])
    have less: "nat (sint i) < nat (sint (length' self))"
      using True nonneg by (simp add: word_sless_alt)
    have elt: "getElement ndebug self i = Inr ?x"
      using "1.prems" True by (intro getElement_in_bounds) auto
    have "length elements < max_size"
      using "1.prems"(3) less by arith
    then have push: "push_back max_size elements ?x = Inr (elements @ [?x])"
      by (simp add: push_back_def)
    have next0: "0 \<le>s i + 1"
      using nonneg succ by (simp add: word_sle_eq)
    have room: "length (elements @ [?x])
        + (nat (sint (length' self)) - nat (sint (i + 1))) \<le> max_size"
    proof -
      have "nat (sint (i + 1)) = Suc (nat (sint i))"
        using nonneg by (simp add: succ nat_add_distrib)
      with "1.prems"(3) less show ?thesis
        by simp arith
    qed
    have ih: "dunderAdd_loop ndebug max_size self (i + 1) (elements @ [?x]) =
        Inr ((elements @ [?x])
             @ map (\<lambda>k. getRawElement self (of_nat k * step self + startIndex self))
                 [nat (sint (i + 1)) ..< nat (sint (length' self))])"
      using "1.IH" [OF True elt push next0 "1.prems"(2) room] .
    have ofnat: "(of_nat (nat (sint i)) :: intptr_t) = i"
      using nonneg by simp
    have upt: "[nat (sint i) ..< nat (sint (length' self))]
        = nat (sint i) # [nat (sint (i + 1)) ..< nat (sint (length' self))]"
      using less nonneg by (simp add: upt_conv_Cons succ nat_add_distrib)
    show ?thesis
      unfolding dunderAdd_loop.simps [of ndebug max_size self i elements] upt
      using True elt push ih ofnat by simp
  qed
qed

text \<open>The sum of two non-negative lengths, converted to \<^verbatim>\<open>size_t\<close>, is their sum.\<close>

lemma unat_add_nonneg:
  fixes m n :: intptr_t
  assumes "0 \<le>s m" and "0 \<le>s n"
  shows "unat (m + n) = nat (sint m) + nat (sint n)"
proof -
  have u: "uint w = sint w" if "0 \<le>s w" for w :: intptr_t
  proof -
    from that have "0 \<le> sint w" by (simp add: word_sle_eq)
    moreover have "sint w < 2 ^ 63" using sint_lt [of w] by simp
    ultimately have "take_bit 64 (sint w) = sint w"
      by (intro take_bit_int_eq_self) simp_all
    then show ?thesis by (simp add: uint_sint)
  qed
  have b: "unat w < 2 ^ 63" "unat w = nat (sint w)" if "0 \<le>s w" for w :: intptr_t
    using u [OF that] sint_lt [of w] by (simp_all add: unat_eq_nat_uint)
  have "unat (m + n) = (unat m + unat n) mod 2 ^ 64"
    by (simp add: unat_word_ariths)
  also have "\<dots> = unat m + unat n"
    using b(1) [OF assms(1)] b(1) [OF assms(2)] by simp
  finally show ?thesis
    by (simp add: b(2) [OF assms(1)] b(2) [OF assms(2)])
qed

lemma dunderAdd_eq:
  fixes self other :: "'e derived"
  assumes "0 \<le>s length' self" and "0 \<le>s length' other"
    and "sint (length' self) + sint (length' other) \<le> int max_size"
    and "ndebug \<or> (\<forall>k. 0 \<le>s k \<and> k <s length' self \<longrightarrow>
           0 \<le>s k * step self + startIndex self
           \<and> k * step self + startIndex self <s getRawNumElements self)"
    and "ndebug \<or> (\<forall>k. 0 \<le>s k \<and> k <s length' other \<longrightarrow>
           0 \<le>s k * step other + startIndex other
           \<and> k * step other + startIndex other <s getRawNumElements other)"
  shows "dunderAdd ndebug max_size self other =
     Inr (map (\<lambda>k. getRawElement self (of_nat k * step self + startIndex self))
            [0 ..< nat (sint (length' self))]
        @ map (\<lambda>k. getRawElement other (of_nat k * step other + startIndex other))
            [0 ..< nat (sint (length' other))])"
proof -
  let ?m = "nat (sint (length' self))" and ?n = "nat (sint (length' other))"
  let ?f = "\<lambda>k. getRawElement self (of_nat k * step self + startIndex self)"
  let ?g = "\<lambda>k. getRawElement other (of_nat k * step other + startIndex other)"
  have z: "(0 :: intptr_t) \<le>s 0"
    by simp
  have sum: "?m + ?n \<le> max_size"
    using assms(1-3) by (simp add: word_sle_eq)
  have r: "reserve max_size ([] :: 'e list) (length' self + length' other) = Inr []"
    using sum by (simp add: reserve_def unat_add_nonneg [OF assms(1,2)])
  have l1: "dunderAdd_loop ndebug max_size self 0 [] = Inr ([] @ map ?f [nat (sint (0 :: intptr_t)) ..< ?m])"
    using sum by (intro dunderAdd_loop_collect [OF z assms(4)]) simp
  have l2: "dunderAdd_loop ndebug max_size other 0 (map ?f [0 ..< ?m])
      = Inr (map ?f [0 ..< ?m] @ map ?g [nat (sint (0 :: intptr_t)) ..< ?n])"
    using sum by (intro dunderAdd_loop_collect [OF z assms(5)]) simp
  show ?thesis
    using r l1 l2 by (simp add: dunderAdd_def)
qed

text \<open>
  The call of \<^verbatim>\<open>reserve\<close> comes first: when the sum of the two lengths, converted to
  \<^verbatim>\<open>size_t\<close>, exceeds \<^verbatim>\<open>max_size()\<close>, no element is read.
\<close>

lemma dunderAdd_length_error:
  assumes "max_size < unat (length' self + length' other)"
  shows "dunderAdd ndebug max_size self other = Inl LengthError"
  using assms by (simp add: dunderAdd_def reserve_def)

text \<open>
  Claim C4, as amended. Let the lengths \<open>m\<close> and \<open>n\<close> of the two slices be
  non-negative with \<open>m + n\<close> at most \<^verbatim>\<open>max_size()\<close> of the vector, and let assertions
  be compiled out or both slices be well-formed: every index within \<open>[0, length)\<close> has
  its linear index within \<open>[0, getRawNumElements())\<close>. Then \<^verbatim>\<open>dunderAdd\<close> returns a
  vector of \<open>m + n\<close> elements, whose element \<open>i\<close> is \<^verbatim>\<open>self.getElement(i)\<close> for
  \<open>0 \<le> i < m\<close> and whose element \<open>m + j\<close> is \<^verbatim>\<open>other.getElement(j)\<close> for
  \<open>0 \<le> j < n\<close>.
\<close>

theorem dunderAdd_concatenates:
  fixes self other :: "'e derived"
  assumes "0 \<le>s length' self" and "0 \<le>s length' other"
    and "sint (length' self) + sint (length' other) \<le> int max_size"
    and "ndebug \<or> (\<forall>k. 0 \<le>s k \<and> k <s length' self \<longrightarrow>
           0 \<le>s k * step self + startIndex self
           \<and> k * step self + startIndex self <s getRawNumElements self)"
    and "ndebug \<or> (\<forall>k. 0 \<le>s k \<and> k <s length' other \<longrightarrow>
           0 \<le>s k * step other + startIndex other
           \<and> k * step other + startIndex other <s getRawNumElements other)"
  shows "\<exists>elements.
      dunderAdd ndebug max_size self other = Inr elements
    \<and> int (length elements) = sint (length' self) + sint (length' other)
    \<and> (\<forall>i. 0 \<le>s i \<and> i <s length' self \<longrightarrow>
           getElement ndebug self i = Inr (elements ! nat (sint i)))
    \<and> (\<forall>j. 0 \<le>s j \<and> j <s length' other \<longrightarrow>
           getElement ndebug other j
             = Inr (elements ! nat (sint (length' self) + sint j)))"
proof -
  let ?m = "nat (sint (length' self))" and ?n = "nat (sint (length' other))"
  let ?f = "\<lambda>k. getRawElement self (of_nat k * step self + startIndex self)"
  let ?g = "\<lambda>k. getRawElement other (of_nat k * step other + startIndex other)"
  let ?v = "map ?f [0 ..< ?m] @ map ?g [0 ..< ?n]"
  have m0: "0 \<le> sint (length' self)" and n0: "0 \<le> sint (length' other)"
    using assms(1,2) by (simp_all add: word_sle_eq)
  have res: "dunderAdd ndebug max_size self other = Inr ?v"
    by (rule dunderAdd_eq [OF assms])
  have len: "int (length ?v) = sint (length' self) + sint (length' other)"
    using m0 n0 by simp
  have left: "getElement ndebug self i = Inr (?v ! nat (sint i))"
    if "0 \<le>s i" "i <s length' self" for i
  proof -
    from that have b: "0 \<le> sint i" "nat (sint i) < ?m"
      by (simp_all add: word_sle_eq word_sless_alt)
    then have "?v ! nat (sint i) = ?f (nat (sint i))"
      by (simp add: nth_append)
    also have "\<dots> = getRawElement self (i * step self + startIndex self)"
      using b(1) by simp
    also have "Inr \<dots> = getElement ndebug self i"
      using that assms(4) by (intro getElement_in_bounds [symmetric]) auto
    finally show ?thesis by simp
  qed
  have right: "getElement ndebug other j = Inr (?v ! nat (sint (length' self) + sint j))"
    if "0 \<le>s j" "j <s length' other" for j
  proof -
    from that have b: "0 \<le> sint j" "nat (sint j) < ?n"
      by (simp_all add: word_sle_eq word_sless_alt)
    have "nat (sint (length' self) + sint j) = ?m + nat (sint j)"
      using m0 b(1) by (simp add: nat_add_distrib)
    then have "?v ! nat (sint (length' self) + sint j) = ?g (nat (sint j))"
      using b(2) by (simp add: nth_append)
    also have "\<dots> = getRawElement other (j * step other + startIndex other)"
      using b(1) by simp
    also have "Inr \<dots> = getElement ndebug other j"
      using that assms(5) by (intro getElement_in_bounds [symmetric]) auto
    finally show ?thesis by simp
  qed
  from res len left right show ?thesis
    by blast
qed

text \<open>The indices of a slice of length 2.\<close>

lemma small_index_cases:
  fixes k :: intptr_t
  assumes "0 \<le>s k" and "k <s 2"
  shows "k = 0 \<or> k = 1"
proof -
  from assms have "sint k = sint (0 :: intptr_t) \<or> sint k = sint (1 :: intptr_t)"
    by (auto simp add: word_sle_eq word_sless_alt)
  then show ?thesis
    by (blast dest: signed_word_eqI)
qed

text \<open>
  The theorem at two well-formed slices over a container of two elements, the second
  one reversed (start 1, step \<open>-1\<close>), with assertions enabled and \<^verbatim>\<open>max_size()\<close> equal
  to \<open>2 ^ 60 - 1\<close>.
\<close>

theorem dunderAdd_concatenates_witness:
  "dunderAdd False 1152921504606846975
     \<lparr>startIndex = 0, length' = 2, step = 1, getRawNumElements = 2, getRawElement = unat\<rparr>
     \<lparr>startIndex = 1, length' = 2, step = - 1, getRawNumElements = 2, getRawElement = unat\<rparr>
   = Inr [0, 1, 1, 0]
   \<and> (\<exists>elements.
        dunderAdd False 1152921504606846975
          \<lparr>startIndex = 0, length' = 2, step = 1, getRawNumElements = 2, getRawElement = unat\<rparr>
          \<lparr>startIndex = 1, length' = 2, step = - 1, getRawNumElements = 2, getRawElement = unat\<rparr>
        = Inr elements
      \<and> int (length elements) = 4)"
proof -
  let ?a = "\<lparr>startIndex = 0, length' = 2, step = 1, getRawNumElements = 2,
             getRawElement = unat\<rparr> :: nat derived"
  let ?b = "\<lparr>startIndex = 1, length' = 2, step = - 1, getRawNumElements = 2,
             getRawElement = unat\<rparr> :: nat derived"
  have la: "0 \<le>s length' ?a" and lb: "0 \<le>s length' ?b"
    by (simp_all add: word_sle_eq)
  have room: "sint (length' ?a) + sint (length' ?b) \<le> int 1152921504606846975"
    by simp
  have wa: "False \<or> (\<forall>k. 0 \<le>s k \<and> k <s length' ?a \<longrightarrow>
           0 \<le>s k * step ?a + startIndex ?a
           \<and> k * step ?a + startIndex ?a <s getRawNumElements ?a)"
  proof (intro disjI2 allI impI)
    fix k :: intptr_t
    assume "0 \<le>s k \<and> k <s length' ?a"
    then have "k = 0 \<or> k = 1"
      using small_index_cases [of k] by simp
    then show "0 \<le>s k * step ?a + startIndex ?a
        \<and> k * step ?a + startIndex ?a <s getRawNumElements ?a"
      by (auto simp add: word_sle_eq word_sless_alt)
  qed
  have wb: "False \<or> (\<forall>k. 0 \<le>s k \<and> k <s length' ?b \<longrightarrow>
           0 \<le>s k * step ?b + startIndex ?b
           \<and> k * step ?b + startIndex ?b <s getRawNumElements ?b)"
  proof (intro disjI2 allI impI)
    fix k :: intptr_t
    assume "0 \<le>s k \<and> k <s length' ?b"
    then have "k = 0 \<or> k = 1"
      using small_index_cases [of k] by simp
    then show "0 \<le>s k * step ?b + startIndex ?b
        \<and> k * step ?b + startIndex ?b <s getRawNumElements ?b"
      by (auto simp add: word_sle_eq word_sless_alt)
  qed
  have e: "dunderAdd False 1152921504606846975 ?a ?b = Inr [0, 1, 1, 0]"
    by (simp add: dunderAdd_def reserve_def push_back_def dunderAdd_loop.simps
        getElement_def wrapIndex_def linearizeIndex_def c_assert_def
        word_sle_eq word_sless_alt)
  from dunderAdd_concatenates [OF la lb room wa wb] e show ?thesis
    by simp
qed

text \<open>
  Claim C4 as stated, for every two slices, fails with assertions enabled: the first
  slice has length 2 over a container of one element, and \<^verbatim>\<open>dunderAdd\<close> returns no
  vector, since the assertion of \<^verbatim>\<open>linearizeIndex\<close> fails at index 1.
\<close>

theorem dunderAdd_ill_formed_counterexample:
  "dunderAdd False 1152921504606846975
     \<lparr>startIndex = 0, length' = 2, step = 1, getRawNumElements = 1, getRawElement = unat\<rparr>
     \<lparr>startIndex = 0, length' = 0, step = 1, getRawNumElements = 1, getRawElement = unat\<rparr>
   = Inl (AssertionFailed ''linear index out of bounds, the slice is ill-formed'')"
  by (simp add: dunderAdd_def reserve_def push_back_def dunderAdd_loop.simps
      getElement_def wrapIndex_def linearizeIndex_def c_assert_def
      word_sle_eq word_sless_alt)

text \<open>
  The other two conditions are needed as well. With assertions compiled out, a slice
  of length \<open>-1\<close> makes the argument of \<^verbatim>\<open>reserve\<close> negative; and two well-formed
  slices of step 0 and length \<open>2 ^ 62\<close> over one element overflow the sum of the lengths.
  In both cases \<^verbatim>\<open>reserve\<close> throws.
\<close>

lemma dunderAdd_negative_length_example:
  "dunderAdd True 1152921504606846975
     \<lparr>startIndex = 0, length' = - 1, step = 1, getRawNumElements = 1, getRawElement = unat\<rparr>
     \<lparr>startIndex = 0, length' = 0, step = 1, getRawNumElements = 1, getRawElement = unat\<rparr>
   = Inl LengthError"
  by (simp add: dunderAdd_def reserve_def unsigned_minus_1_eq_mask mask_eq_exp_minus_1)

lemma dunderAdd_overflow_example:
  "dunderAdd False 1152921504606846975
     \<lparr>startIndex = 0, length' = 4611686018427387904, step = 0, getRawNumElements = 1,
      getRawElement = unat\<rparr>
     \<lparr>startIndex = 0, length' = 4611686018427387904, step = 0, getRawNumElements = 1,
      getRawElement = unat\<rparr>
   = Inl LengthError"
  by (simp add: dunderAdd_def reserve_def)

end
